theory Spec2Isabelle
  imports Complex_Main "HOL-Library.Multiset"
begin

section \<open>The parking-search API route (src/pages/api/parking/search.ts)\<close>

text \<open>
  The route keeps three process-wide caches (the access token, the per-city lot metadata
  and the per-city availability snapshots), talks to the TDX upstream over three
  endpoints, and joins, filters and sorts the lots of a city.  The model follows the
  source function by function.  A coordinate that is a finite number is the \<^typ>\<open>real\<close>
  it denotes; a number computed in floating point is a double of the engine's arithmetic;
  a counter or a timestamp in milliseconds is an \<^typ>\<open>int\<close>; \<open>undefined\<close> is \<open>None\<close>.
\<close>

subsection \<open>Numbers and the distance calculator\<close>

text \<open>
  The arithmetic of \<open>calculateDistance\<close> is that of the engine's IEEE doubles: every
  operation rounds, and a result may be \<open>NaN\<close> or infinite.  It is a parameter of the
  model: a type \<open>'d\<close> of doubles with the operations the source uses.  \<open>num x\<close> is the
  double of a literal, of a parsed query parameter or of a number read from a feed, whose
  value is the real \<open>x\<close>; \<open>num_sign\<close> is how \<open>Array.prototype.sort\<close> reads the value a
  comparator returns (negative, positive, or neither, which covers zero and \<open>NaN\<close>).
\<close>

datatype sign = Negative | Neutral | Positive

record 'd arith =
  num :: "real \<Rightarrow> 'd"
  Math_PI :: 'd
  num_add :: "'d \<Rightarrow> 'd \<Rightarrow> 'd"
  num_sub :: "'d \<Rightarrow> 'd \<Rightarrow> 'd"
  num_mul :: "'d \<Rightarrow> 'd \<Rightarrow> 'd"
  num_div :: "'d \<Rightarrow> 'd \<Rightarrow> 'd"
  Math_sin :: "'d \<Rightarrow> 'd"
  Math_cos :: "'d \<Rightarrow> 'd"
  Math_sqrt :: "'d \<Rightarrow> 'd"
  Math_atan2 :: "'d \<Rightarrow> 'd \<Rightarrow> 'd"
  num_sign :: "'d \<Rightarrow> sign"

definition calculateDistance :: "'d arith \<Rightarrow> 'd \<Rightarrow> 'd \<Rightarrow> 'd \<Rightarrow> 'd \<Rightarrow> 'd" where
  "calculateDistance fl lat1 lon1 lat2 lon2 =
     (let R = num fl 6371;
          dLat = num_div fl (num_mul fl (num_sub fl lat2 lat1) (Math_PI fl)) (num fl 180);
          dLon = num_div fl (num_mul fl (num_sub fl lon2 lon1) (Math_PI fl)) (num fl 180);
          a = num_add fl
                (num_mul fl (Math_sin fl (num_div fl dLat (num fl 2)))
                            (Math_sin fl (num_div fl dLat (num fl 2))))
                (num_mul fl
                   (num_mul fl
                      (num_mul fl
                         (Math_cos fl (num_div fl (num_mul fl lat1 (Math_PI fl)) (num fl 180)))
                         (Math_cos fl (num_div fl (num_mul fl lat2 (Math_PI fl)) (num fl 180))))
                      (Math_sin fl (num_div fl dLon (num fl 2))))
                   (Math_sin fl (num_div fl dLon (num fl 2))));
          c = num_mul fl (num fl 2)
                (Math_atan2 fl (Math_sqrt fl a) (Math_sqrt fl (num_sub fl (num fl 1) a)))
      in num_mul fl R c)"

subsection \<open>JavaScript values\<close>

text \<open>
  A string that may be \<open>undefined\<close> is a \<^typ>\<open>string option\<close>.  Both \<open>undefined\<close> and
  the empty string are falsy; \<open>v || d\<close> is \<open>d\<close> exactly when \<open>v\<close> is falsy.
\<close>

definition truthy :: "string option \<Rightarrow> bool" where
  "truthy v = (case v of None \<Rightarrow> False | Some x \<Rightarrow> x \<noteq> [])"

definition or_else :: "string option \<Rightarrow> string \<Rightarrow> string" where
  "or_else v d = (case v of None \<Rightarrow> d | Some x \<Rightarrow> if x = [] then d else x)"

text \<open>
  \<open>now < expiredAt\<close>, where \<open>expiredAt\<close> is \<open>NaN\<close> (here \<open>None\<close>) after a renewal whose
  response carried no \<open>expires_in\<close>: every comparison with \<open>NaN\<close> is false.
\<close>

definition before :: "int \<Rightarrow> int option \<Rightarrow> bool" where
  "before now e = (case e of None \<Rightarrow> False | Some x \<Rightarrow> now < x)"

text \<open>
  What the handler can throw: the schema's \<open>ZodError\<close> with the paths of the rejected
  fields, an \<open>Error\<close> with its message, a \<open>TypeError\<close> (a property read, a call or an
  iteration on \<open>undefined\<close>), and the rejection of \<open>fetch\<close> or of \<open>response.json()\<close>.
\<close>

datatype error = ZodError "string list" | Error string | TypeError | FetchError

subsection \<open>The schema (src/lib/schemas.ts)\<close>

definition City_values :: "string list" where
  "City_values =
     [''Taipei'', ''Taoyuan'', ''Taichung'', ''Tainan'', ''Kaohsiung'', ''Keelung'',
      ''ChanghuaCounty'', ''YunlinCounty'', ''PingtungCounty'', ''YilanCounty'',
      ''HualienCounty'', ''KinmenCounty'']"

datatype ParkingType = Car | Scooter | Heavy

datatype ParkingAvailability = Available | Many | Few | Any

definition ParkingType_of :: "string \<Rightarrow> ParkingType option" where
  "ParkingType_of x =
     (if x = ''Car'' then Some Car
      else if x = ''Scooter'' then Some Scooter
      else if x = ''Heavy'' then Some Heavy
      else None)"

definition ParkingAvailability_of :: "string \<Rightarrow> ParkingAvailability option" where
  "ParkingAvailability_of x =
     (if x = ''Available'' then Some Available
      else if x = ''Many'' then Some Many
      else if x = ''Few'' then Some Few
      else if x = ''Any'' then Some Any
      else None)"

record location =
  latitude :: real
  longitude :: real

record params =
  p_city :: string
  p_parkingType :: ParkingType
  p_availability :: ParkingAvailability
  p_location :: "location option"

text \<open>
  The four fields of \<open>ParkingSearchSchema\<close>.  Each parser returns \<open>None\<close> where zod
  records an issue.  A coordinate arrives as the result of \<open>parseFloat\<close>, which is \<open>None\<close>
  when it is not a finite number (\<open>z.number()\<close> rejects \<open>NaN\<close>, and the bounds reject the
  infinities).
\<close>

definition parse_city :: "string option \<Rightarrow> string option" where
  "parse_city v = (case v of None \<Rightarrow> None | Some x \<Rightarrow> if x \<in> set City_values then Some x else None)"

definition parse_parkingType :: "string option \<Rightarrow> ParkingType option" where
  "parse_parkingType v = (case v of None \<Rightarrow> Some Car | Some x \<Rightarrow> ParkingType_of x)"

definition parse_availability :: "string option \<Rightarrow> ParkingAvailability option" where
  "parse_availability v = (case v of None \<Rightarrow> Some Available | Some x \<Rightarrow> ParkingAvailability_of x)"

definition parse_latitude :: "real option \<Rightarrow> real option" where
  "parse_latitude v = (case v of None \<Rightarrow> None | Some x \<Rightarrow> if - 90 \<le> x \<and> x \<le> 90 then Some x else None)"

definition parse_longitude :: "real option \<Rightarrow> real option" where
  "parse_longitude v = (case v of None \<Rightarrow> None | Some x \<Rightarrow> if - 180 \<le> x \<and> x \<le> 180 then Some x else None)"

definition LocationSchema_issues :: "(real option \<times> real option) option \<Rightarrow> string list" where
  "LocationSchema_issues v =
     (case v of
        None \<Rightarrow> []
      | Some (la, lo) \<Rightarrow>
          (if parse_latitude la = None then [''location.latitude''] else []) @
          (if parse_longitude lo = None then [''location.longitude''] else []))"

definition parse_location :: "(real option \<times> real option) option \<Rightarrow> location option option" where
  "parse_location v =
     (case v of
        None \<Rightarrow> Some None
      | Some (la, lo) \<Rightarrow>
          (case (parse_latitude la, parse_longitude lo) of
             (Some x, Some y) \<Rightarrow> Some (Some \<lparr>latitude = x, longitude = y\<rparr>)
           | _ \<Rightarrow> None))"

definition ParkingSearchSchema_parse ::
  "string option \<Rightarrow> string option \<Rightarrow> string option \<Rightarrow> (real option \<times> real option) option \<Rightarrow>
   error + params" where
  "ParkingSearchSchema_parse c t a l =
     (case (parse_city c, parse_parkingType t, parse_availability a, parse_location l) of
        (Some c', Some t', Some a', Some l') \<Rightarrow>
          Inr \<lparr>p_city = c', p_parkingType = t', p_availability = a', p_location = l'\<rparr>
      | _ \<Rightarrow>
          Inl (ZodError
            ((if parse_city c = None then [''city''] else []) @
             (if parse_parkingType t = None then [''parkingType''] else []) @
             (if parse_availability a = None then [''availability''] else []) @
             LocationSchema_issues l)))"

subsection \<open>The upstream feeds\<close>

text \<open>
  The JSON of the three TDX endpoints, as far as the route reads it.  A member that the
  route dereferences without a guard is optional here, so that its absence is the
  \<open>TypeError\<close> of the source.
\<close>

record token_json =
  access_token :: "string option"
  expires_in :: "int option"

record name_json =
  Zh_tw :: string
  En :: string

record position_json =
  PositionLat :: real
  PositionLon :: real

record carpark_json =
  cp_CarParkID :: string
  cp_CarParkName :: "name_json option"
  cp_Telephone :: "string option"
  cp_EmergencyPhone :: "string option"
  cp_Description :: "string option"
  cp_CarParkPosition :: "position_json option"
  cp_Address :: "string option"
  cp_ImageURLs :: "string list option"

record availability =
  SpaceType :: int
  NumberOfSpaces :: int
  AvailableSpaces :: int

record lot_json =
  pa_CarParkID :: string
  pa_CarParkName :: "name_json option"
  pa_Availabilities :: "availability list option"

text \<open>
  An awaited \<open>fetch\<close> followed by \<open>response.json()\<close> either rejects or yields the parsed
  body.  For the two feeds the body is its \<open>CarParks\<close> or \<open>ParkingAvailabilities\<close> member,
  \<open>None\<close> when the body has no such array.
\<close>

datatype 'a fetched = Rejected | Json 'a

datatype request =
    TokenRequest
  | CarParkRequest string string
  | AvailabilityRequest string string

text \<open>
  The upstream is a parameter of the model: each endpoint maps the time of the request
  (and, for the feeds, the city segment of the URL and the bearer token) to the time the
  exchange takes in milliseconds and its outcome.
\<close>

record upstream =
  token_endpoint :: "int \<Rightarrow> nat \<times> token_json fetched"
  carpark_endpoint :: "string \<Rightarrow> string \<Rightarrow> int \<Rightarrow> nat \<times> carpark_json list option fetched"
  availability_endpoint :: "string \<Rightarrow> string \<Rightarrow> int \<Rightarrow> nat \<times> lot_json list option fetched"

subsection \<open>The process-wide state\<close>

record name =
  zh_tw :: string
  en :: string

record carPark =
  carParkName :: name
  telephone :: string
  location :: location
  description :: string
  address :: string
  imageURL :: "string option"

record lot =
  CarParkID :: string
  CarParkName :: name_json
  Availabilities :: "availability list"

record snapshot =
  cache_expiredAt :: int
  cache_values :: "lot list"

text \<open>
  The module's variables \<open>expiredAt\<close>, \<open>accessToken\<close>, \<open>loadedCities\<close>, \<open>carParkData\<close> and
  \<open>carParkCache\<close>, together with the clock read by \<open>Date.now()\<close> and the list of the
  network requests issued so far.  \<open>carParkCache\<close> is keyed by the raw \<open>req.query.city\<close>,
  which the handler passes on before validation and which may be \<open>undefined\<close>.
\<close>

record state =
  clock :: int
  requests :: "request list"
  expiredAt :: "int option"
  accessToken :: "string option"
  loadedCities :: "string set"
  carParkData :: "string \<rightharpoonup> carPark"
  carParkCache :: "string option \<rightharpoonup> snapshot"

definition fetch :: "(int \<Rightarrow> nat \<times> 'a fetched) \<Rightarrow> request \<Rightarrow> state \<Rightarrow> 'a fetched \<times> state" where
  "fetch endpoint r s =
     (case endpoint (clock s) of
        (d, body) \<Rightarrow> (body, s\<lparr>clock := clock s + int d, requests := requests s @ [r]\<rparr>))"

subsection \<open>Token manager\<close>

text \<open>Lines 43 to 61 of \<open>getAccessToken\<close>: the credential exchange.\<close>

definition renewAccessToken :: "upstream \<Rightarrow> int \<Rightarrow> state \<Rightarrow> (error + string) \<times> state" where
  "renewAccessToken up now s =
     (case fetch (token_endpoint up) TokenRequest s of
        (Rejected, s1) \<Rightarrow> (Inl FetchError, s1)
      | (Json data, s1) \<Rightarrow>
          (case access_token data of
             None \<Rightarrow> (Inl (Error ''Failed to get access token from TDX''), s1)
           | Some t \<Rightarrow>
               if t = [] then (Inl (Error ''Failed to get access token from TDX''), s1)
               else (Inr t,
                     s1\<lparr>expiredAt := map_option (\<lambda>l. now + l * 1000 - 60000) (expires_in data),
                        accessToken := Some t\<rparr>)))"

definition getAccessToken :: "upstream \<Rightarrow> state \<Rightarrow> (error + string) \<times> state" where
  "getAccessToken up s =
     (let now = clock s in
      case accessToken s of
        None \<Rightarrow> renewAccessToken up now s
      | Some t \<Rightarrow>
          if t \<noteq> [] \<and> before now (expiredAt s) then (Inr t, s)
          else renewAccessToken up now s)"

subsection \<open>Metadata loader\<close>

text \<open>The object literal stored by \<open>carParkData.set\<close>, lines 82 to 95.\<close>

definition carParkEntry :: "carpark_json \<Rightarrow> name_json \<Rightarrow> position_json \<Rightarrow> carPark" where
  "carParkEntry cp n pos =
     \<lparr>carParkName = \<lparr>zh_tw = Zh_tw n, en = En n\<rparr>,
      telephone = or_else (cp_Telephone cp) (or_else (cp_EmergencyPhone cp) []),
      location = \<lparr>latitude = PositionLat pos, longitude = PositionLon pos\<rparr>,
      description = or_else (cp_Description cp) [],
      address = or_else (cp_Address cp) [],
      imageURL = (case cp_ImageURLs cp of None \<Rightarrow> None | Some [] \<Rightarrow> None | Some (u # _) \<Rightarrow> Some u)\<rparr>"

definition carParkKey :: "string \<Rightarrow> string \<Rightarrow> string" where
  "carParkKey city ident = city @ ''-'' @ ident"

text \<open>
  The loop of lines 81 to 96.  A record without \<open>CarParkName\<close> or \<open>CarParkPosition\<close>
  throws when the literal is built; the entries set before it stay.
\<close>

fun populate :: "string \<Rightarrow> carpark_json list \<Rightarrow> state \<Rightarrow> (error + unit) \<times> state" where
  "populate city [] s = (Inr (), s)"
| "populate city (cp # rest) s =
     (case (cp_CarParkName cp, cp_CarParkPosition cp) of
        (Some n, Some pos) \<Rightarrow>
          populate city rest
            (s\<lparr>carParkData := (carParkData s)(carParkKey city (cp_CarParkID cp) \<mapsto> carParkEntry cp n pos)\<rparr>)
      | _ \<Rightarrow> (Inl TypeError, s))"

definition loadMockCarParkData :: "upstream \<Rightarrow> string \<Rightarrow> state \<Rightarrow> (error + unit) \<times> state" where
  "loadMockCarParkData up city s =
     (if city \<in> loadedCities s then (Inr (), s)
      else
        case getAccessToken up s of
          (Inl e, s1) \<Rightarrow> (Inl e, s1)
        | (Inr token, s1) \<Rightarrow>
            (case fetch (carpark_endpoint up city token) (CarParkRequest city token) s1 of
               (Rejected, s2) \<Rightarrow> (Inl FetchError, s2)
             | (Json data, s2) \<Rightarrow>
                 (let s3 = s2\<lparr>loadedCities := insert city (loadedCities s2)\<rparr> in
                  case data of
                    None \<Rightarrow> (Inl TypeError, s3)
                  | Some cps \<Rightarrow> populate city cps s3)))"

definition getMockCarParkData :: "state \<Rightarrow> string \<Rightarrow> string \<Rightarrow> carPark option" where
  "getMockCarParkData s city ident = carParkData s (carParkKey city ident)"

subsection \<open>Availability cache\<close>

text \<open>
  The callback of \<open>values.map\<close>, lines 139 to 150: \<open>None\<close> where it throws, on a lot
  without \<open>CarParkName\<close> or without \<open>Availabilities\<close>.
\<close>

definition mapAvailability :: "availability \<Rightarrow> availability" where
  "mapAvailability avail =
     \<lparr>SpaceType = SpaceType avail,
      NumberOfSpaces = NumberOfSpaces avail,
      AvailableSpaces = AvailableSpaces avail\<rparr>"

definition mapLot :: "lot_json \<Rightarrow> lot option" where
  "mapLot l =
     (case (pa_CarParkName l, pa_Availabilities l) of
        (Some n, Some avs) \<Rightarrow>
          Some \<lparr>CarParkID = pa_CarParkID l,
                CarParkName = \<lparr>Zh_tw = Zh_tw n, En = En n\<rparr>,
                Availabilities = map mapAvailability avs\<rparr>
      | _ \<Rightarrow> None)"

fun mapLots :: "lot_json list \<Rightarrow> lot list option" where
  "mapLots [] = Some []"
| "mapLots (l # ls) =
     (case mapLot l of
        None \<Rightarrow> None
      | Some x \<Rightarrow> (case mapLots ls of None \<Rightarrow> None | Some xs \<Rightarrow> Some (x # xs)))"

text \<open>The city segment of the request URL: \<open>"..." + city + "..."\<close>.\<close>

definition urlCity :: "string option \<Rightarrow> string" where
  "urlCity city = (case city of None \<Rightarrow> ''undefined'' | Some c \<Rightarrow> c)"

text \<open>Lines 127 to 153 of \<open>getAvailableCarParks\<close>: the refresh of a city's snapshot.\<close>

definition fetchAvailableCarParks ::
  "upstream \<Rightarrow> string option \<Rightarrow> state \<Rightarrow> (error + lot list) \<times> state" where
  "fetchAvailableCarParks up city s =
     (case getAccessToken up s of
        (Inl e, s1) \<Rightarrow> (Inl e, s1)
      | (Inr token, s1) \<Rightarrow>
          (case fetch (availability_endpoint up (urlCity city) token)
                  (AvailabilityRequest (urlCity city) token) s1 of
             (Rejected, s2) \<Rightarrow> (Inl FetchError, s2)
           | (Json None, s2) \<Rightarrow> (Inl TypeError, s2)
           | (Json (Some vs), s2) \<Rightarrow>
               (case mapLots vs of
                  None \<Rightarrow> (Inl TypeError, s2)
                | Some lots \<Rightarrow>
                    (Inr lots,
                     s2\<lparr>carParkCache := (carParkCache s2)
                          (city \<mapsto> \<lparr>cache_expiredAt = clock s2 + 60000, cache_values = lots\<rparr>)\<rparr>))))"

definition getAvailableCarParks ::
  "upstream \<Rightarrow> string option \<Rightarrow> state \<Rightarrow> (error + lot list) \<times> state" where
  "getAvailableCarParks up city s =
     (case carParkCache s city of
        None \<Rightarrow> fetchAvailableCarParks up city s
      | Some cache \<Rightarrow>
          if cache_expiredAt cache > clock s then (Inr (cache_values cache), s)
          else fetchAvailableCarParks up city s)"

subsection \<open>Search orchestrator\<close>

fun spaceTypeMapping :: "ParkingType \<Rightarrow> int" where
  "spaceTypeMapping Car = 1"
| "spaceTypeMapping Scooter = 2"
| "spaceTypeMapping Heavy = 5"

fun availableSpaceTypes :: "ParkingAvailability \<Rightarrow> int" where
  "availableSpaceTypes Any = 0"
| "availableSpaceTypes Few = 3"
| "availableSpaceTypes Many = 5"
| "availableSpaceTypes Available = 1"

record 'd item =
  item_carParkName :: name
  item_totalSpaces :: int
  item_availableSpaces :: int
  item_location :: location
  item_address :: string
  item_telephone :: string
  item_imageURL :: string
  item_description :: string
  item_distance :: "'d option"

text \<open>The predicate of \<open>filter\<close>, lines 195 to 201.\<close>

definition lotMatches :: "params \<Rightarrow> lot \<Rightarrow> bool" where
  "lotMatches ps l =
     list_ex (\<lambda>avail.
        let spaceType = spaceTypeMapping (p_parkingType ps);
            availability = availableSpaceTypes (p_availability ps)
        in SpaceType avail = spaceType \<and> AvailableSpaces avail \<ge> availability)
       (Availabilities l)"

text \<open>The callback of \<open>map\<close>, lines 202 to 220.\<close>

definition toItem :: "'d arith \<Rightarrow> params \<Rightarrow> state \<Rightarrow> lot \<Rightarrow> 'd item" where
  "toItem fl ps s l =
     (let carPark = getMockCarParkData s (p_city ps) (CarParkID l);
          available = find (\<lambda>avail. SpaceType avail = spaceTypeMapping (p_parkingType ps))
                        (Availabilities l)
      in \<lparr>item_carParkName = \<lparr>zh_tw = Zh_tw (CarParkName l), en = En (CarParkName l)\<rparr>,
          item_totalSpaces = (case available of None \<Rightarrow> 0 | Some a \<Rightarrow> NumberOfSpaces a),
          item_availableSpaces = (case available of None \<Rightarrow> 0 | Some a \<Rightarrow> AvailableSpaces a),
          item_location =
            (case carPark of None \<Rightarrow> \<lparr>latitude = 0, longitude = 0\<rparr> | Some c \<Rightarrow> location c),
          item_address = (case carPark of None \<Rightarrow> [] | Some c \<Rightarrow> address c),
          item_telephone = (case carPark of None \<Rightarrow> [] | Some c \<Rightarrow> telephone c),
          item_imageURL = (case carPark of None \<Rightarrow> [] | Some c \<Rightarrow> or_else (imageURL c) []),
          item_description = (case carPark of None \<Rightarrow> [] | Some c \<Rightarrow> description c),
          item_distance =
            (case p_location ps of
               None \<Rightarrow> None
             | Some u \<Rightarrow>
                 Some (calculateDistance fl (num fl (latitude u)) (num fl (longitude u))
                         (num fl (case carPark of None \<Rightarrow> 0 | Some c \<Rightarrow> latitude (location c)))
                         (num fl (case carPark of None \<Rightarrow> 0 | Some c \<Rightarrow> longitude (location c)))))\<rparr>)"

text \<open>
  The comparator of \<open>sort\<close>, lines 221 to 227, as the sort reads its value.  The available
  spaces are integers, and so is their difference.
\<close>

definition intSign :: "int \<Rightarrow> sign" where
  "intSign i = (if i < 0 then Negative else if 0 < i then Positive else Neutral)"

definition compareLots :: "'d arith \<Rightarrow> params \<Rightarrow> 'd item \<Rightarrow> 'd item \<Rightarrow> sign" where
  "compareLots fl ps lotA lotB =
     (case (p_location ps, item_distance lotA, item_distance lotB) of
        (Some u, Some dA, Some dB) \<Rightarrow> num_sign fl (num_sub fl dA dB)
      | _ \<Rightarrow> intSign (item_availableSpaces lotB - item_availableSpaces lotA))"

text \<open>
  \<open>Array.prototype.sort\<close> with a comparator.  ECMAScript requires the sort to be stable,
  and for a consistent comparator every stable sort returns the same array: each element
  is placed before the first element that the comparator does not put before it.  For a
  comparator that is not consistent, as one that returns \<open>NaN\<close> for some pairs only,
  ECMAScript leaves the order to the engine; nothing below that depends on the order is
  stated for such a comparator.
\<close>

fun sortedInsert :: "('a \<Rightarrow> 'a \<Rightarrow> sign) \<Rightarrow> 'a \<Rightarrow> 'a list \<Rightarrow> 'a list" where
  "sortedInsert cmp x [] = [x]"
| "sortedInsert cmp x (y # ys) =
     (if cmp x y \<noteq> Positive then x # y # ys else y # sortedInsert cmp x ys)"

fun arraySort :: "('a \<Rightarrow> 'a \<Rightarrow> sign) \<Rightarrow> 'a list \<Rightarrow> 'a list" where
  "arraySort cmp [] = []"
| "arraySort cmp (x # xs) = sortedInsert cmp x (arraySort cmp xs)"

text \<open>The lodash chain of lines 194 to 228.\<close>

definition searchResult :: "'d arith \<Rightarrow> params \<Rightarrow> lot list \<Rightarrow> state \<Rightarrow> 'd item list" where
  "searchResult fl ps data s =
     arraySort (compareLots fl ps) (map (toItem fl ps s) (filter (lotMatches ps) data))"

record query =
  q_city :: "string option"
  q_parkingType :: "string option"
  q_availability :: "string option"
  q_latitude :: "string option"
  q_longitude :: "string option"

record request_in =
  req_method :: string
  query :: query

text \<open>
  The three responses: status 405, status 200 with \<open>data\<close>, and status 400 with the
  message of the error caught, which is kept here as the error itself.
\<close>

datatype 'd response = MethodNotAllowed | Success "'d item list" | Failure error

text \<open>The \<open>location\<close> member of the object handed to the schema, lines 173 to 176.\<close>

definition queryLocation ::
  "(string \<Rightarrow> real option) \<Rightarrow> query \<Rightarrow> (real option \<times> real option) option" where
  "queryLocation parseFloat q =
     (case (q_latitude q, q_longitude q) of
        (Some la, Some lo) \<Rightarrow>
          if la \<noteq> [] \<and> lo \<noteq> [] then Some (parseFloat la, parseFloat lo) else None
      | _ \<Rightarrow> None)"

text \<open>
  The handler.  \<open>parseFloat\<close> is a parameter: \<open>None\<close> is a result that is not a finite
  number.
\<close>

definition handler ::
  "'d arith \<Rightarrow> upstream \<Rightarrow> (string \<Rightarrow> real option) \<Rightarrow> request_in \<Rightarrow> state \<Rightarrow>
   'd response \<times> state" where
  "handler fl up parseFloat req s =
     (if req_method req \<noteq> ''GET'' then (MethodNotAllowed, s)
      else
        case getAvailableCarParks up (q_city (query req)) s of
          (Inl e, s1) \<Rightarrow> (Failure e, s1)
        | (Inr data, s1) \<Rightarrow>
            (case ParkingSearchSchema_parse (q_city (query req)) (q_parkingType (query req))
                    (q_availability (query req)) (queryLocation parseFloat (query req)) of
               Inl e \<Rightarrow> (Failure e, s1)
             | Inr ps \<Rightarrow>
                 (case loadMockCarParkData up (p_city ps) s1 of
                    (Inl e, s2) \<Rightarrow> (Failure e, s2)
                  | (Inr u, s2) \<Rightarrow> (Success (searchResult fl ps data s2), s2))))"

subsection \<open>A sample deployment\<close>

text \<open>
  The state of a fresh process at time \<open>t\<close>, and an upstream with three lots in every
  city: lot \<open>A\<close> with six free car spaces, lot \<open>B\<close> with two, and lot \<open>C\<close> with nine free car
  spaces and no record in the metadata feed.  The metadata record of lot \<open>B\<close> has none of
  the optional members.
\<close>

definition initialState :: "int \<Rightarrow> state" where
  "initialState t =
     \<lparr>clock = t, requests = [], expiredAt = Some 0, accessToken = None,
      loadedCities = {}, carParkData = Map.empty, carParkCache = Map.empty\<rparr>"

text \<open>
  An arithmetic for the sample runs: it computes without rounding on the reals, and
  \<open>None\<close> is its \<open>NaN\<close>.  \<open>atan2 y x\<close> is the angle of the point \<open>(x, y)\<close>.
\<close>

definition atan2 :: "real \<Rightarrow> real \<Rightarrow> real" where
  "atan2 y x =
     (if 0 < x then arctan (y / x)
      else if x < 0 then (if 0 \<le> y then arctan (y / x) + pi else arctan (y / x) - pi)
      else if 0 < y then pi / 2
      else if y < 0 then - (pi / 2)
      else 0)"

definition exact1 :: "(real \<Rightarrow> real) \<Rightarrow> real option \<Rightarrow> real option" where
  "exact1 f x = (case x of None \<Rightarrow> None | Some a \<Rightarrow> Some (f a))"

definition exact2 :: "(real \<Rightarrow> real \<Rightarrow> real) \<Rightarrow> real option \<Rightarrow> real option \<Rightarrow> real option" where
  "exact2 f x y = (case (x, y) of (Some a, Some b) \<Rightarrow> Some (f a b) | _ \<Rightarrow> None)"

definition exactArith :: "real option arith" where
  "exactArith =
     \<lparr>num = Some,
      Math_PI = Some pi,
      num_add = exact2 (\<lambda>a b. a + b),
      num_sub = exact2 (\<lambda>a b. a - b),
      num_mul = exact2 (\<lambda>a b. a * b),
      num_div = (\<lambda>x y. if y = Some 0 then None else exact2 (\<lambda>a b. a / b) x y),
      Math_sin = exact1 sin,
      Math_cos = exact1 cos,
      Math_sqrt = (\<lambda>x. case x of None \<Rightarrow> None | Some a \<Rightarrow> if a < 0 then None else Some (sqrt a)),
      Math_atan2 = exact2 atan2,
      num_sign =
        (\<lambda>x. case x of
               None \<Rightarrow> Neutral
             | Some a \<Rightarrow> if a < 0 then Negative else if 0 < a then Positive else Neutral)\<rparr>"

definition sampleToken :: token_json where
  "sampleToken = \<lparr>access_token = Some ''secret'', expires_in = Some 3600\<rparr>"

definition sampleCarPark :: "string \<Rightarrow> real \<Rightarrow> carpark_json" where
  "sampleCarPark ident lat =
     \<lparr>cp_CarParkID = ident,
      cp_CarParkName = Some \<lparr>Zh_tw = ident, En = ident\<rparr>,
      cp_Telephone = None,
      cp_EmergencyPhone = Some ''119'',
      cp_Description = None,
      cp_CarParkPosition = Some \<lparr>PositionLat = lat, PositionLon = 121\<rparr>,
      cp_Address = Some ''Main Street'',
      cp_ImageURLs = None\<rparr>"

text \<open>A record of the metadata feed with none of the optional members.\<close>

definition bareCarPark :: "string \<Rightarrow> real \<Rightarrow> carpark_json" where
  "bareCarPark ident lat =
     \<lparr>cp_CarParkID = ident,
      cp_CarParkName = Some \<lparr>Zh_tw = ident, En = ident\<rparr>,
      cp_Telephone = None,
      cp_EmergencyPhone = None,
      cp_Description = None,
      cp_CarParkPosition = Some \<lparr>PositionLat = lat, PositionLon = 121\<rparr>,
      cp_Address = None,
      cp_ImageURLs = None\<rparr>"

definition sampleLot :: "string \<Rightarrow> int \<Rightarrow> lot_json" where
  "sampleLot ident free =
     \<lparr>pa_CarParkID = ident,
      pa_CarParkName = Some \<lparr>Zh_tw = ident, En = ident\<rparr>,
      pa_Availabilities =
        Some [\<lparr>SpaceType = 1, NumberOfSpaces = 10, AvailableSpaces = free\<rparr>]\<rparr>"

definition sampleUpstream :: upstream where
  "sampleUpstream =
     \<lparr>token_endpoint = (\<lambda>t. (120, Json sampleToken)),
      carpark_endpoint =
        (\<lambda>city token t. (200, Json (Some [sampleCarPark ''A'' 25, bareCarPark ''B'' 24]))),
      availability_endpoint =
        (\<lambda>city token t. (150, Json (Some [sampleLot ''B'' 2, sampleLot ''A'' 6, sampleLot ''C'' 9])))\<rparr>"

text \<open>An upstream whose metadata feed has a second record without a name.\<close>

definition brokenUpstream :: upstream where
  "brokenUpstream =
     sampleUpstream\<lparr>carpark_endpoint :=
        (\<lambda>city token t.
           (200, Json (Some [sampleCarPark ''A'' 25, (sampleCarPark ''B'' 24)\<lparr>cp_CarParkName := None\<rparr>])))\<rparr>"

text \<open>
  An upstream whose metadata feed answers with a body that has no \<open>CarParks\<close> array, as
  an error message has none.
\<close>

definition refusingUpstream :: upstream where
  "refusingUpstream = sampleUpstream\<lparr>carpark_endpoint := (\<lambda>city token t. (200, Json None))\<rparr>"

text \<open>An upstream whose credential endpoint answers without a token.\<close>

definition tokenlessUpstream :: upstream where
  "tokenlessUpstream =
     sampleUpstream\<lparr>token_endpoint := (\<lambda>t. (120, Json \<lparr>access_token = None, expires_in = None\<rparr>))\<rparr>"

definition sampleParseFloat :: "string \<Rightarrow> real option" where
  "sampleParseFloat x = (if x = ''25'' then Some 25 else if x = ''121'' then Some 121 else None)"

definition sampleQuery :: query where
  "sampleQuery =
     \<lparr>q_city = Some ''Taipei'', q_parkingType = Some ''Car'', q_availability = Some ''Many'',
      q_latitude = None, q_longitude = None\<rparr>"

definition sampleRequest :: "query \<Rightarrow> request_in" where
  "sampleRequest q = \<lparr>req_method = ''GET'', query = q\<rparr>"

subsection \<open>Properties of the sort\<close>

lemma mset_sortedInsert: "mset (sortedInsert cmp x ys) = add_mset x (mset ys)"
  by (induction ys) auto

lemma mset_arraySort: "mset (arraySort cmp xs) = mset xs"
  by (induction xs) (auto simp: mset_sortedInsert)

lemma set_sortedInsert: "set (sortedInsert cmp x ys) = insert x (set ys)"
  by (induction ys) auto

lemma set_arraySort: "set (arraySort cmp xs) = set xs"
  by (induction xs) (auto simp: set_sortedInsert)

lemma sorted_sortedInsert:
  fixes key :: "'a \<Rightarrow> 'b::linorder"
  assumes "\<And>y. y \<in> set ys \<Longrightarrow> (cmp x y \<noteq> Positive) = (key x \<le> key y)"
    and "sorted (map key ys)"
  shows "sorted (map key (sortedInsert cmp x ys))"
  using assms
proof (induction ys)
  case Nil
  then show ?case by simp
next
  case (Cons y ys)
  show ?case
  proof (cases "cmp x y \<noteq> Positive")
    case True
    then have "key x \<le> key y" using Cons.prems(1) [of y] by simp
    then show ?thesis using True Cons.prems(2) by auto
  next
    case False
    then have xy: "key y \<le> key x" using Cons.prems(1) [of y] by simp
    have "sorted (map key (sortedInsert cmp x ys))"
      using Cons.IH Cons.prems by simp
    then show ?thesis using False xy Cons.prems(2)
      by (auto simp: set_sortedInsert)
  qed
qed

lemma sorted_arraySort:
  fixes key :: "'a \<Rightarrow> 'b::linorder"
  assumes "\<And>x y. x \<in> set xs \<Longrightarrow> y \<in> set xs \<Longrightarrow> (cmp x y \<noteq> Positive) = (key x \<le> key y)"
  shows "sorted (map key (arraySort cmp xs))"
  using assms
proof (induction xs)
  case Nil
  then show ?case by simp
next
  case (Cons x xs)
  have "sorted (map key (arraySort cmp xs))"
    using Cons.IH Cons.prems by simp
  moreover have "\<And>y. y \<in> set (arraySort cmp xs) \<Longrightarrow> (cmp x y \<noteq> Positive) = (key x \<le> key y)"
    using Cons.prems by (simp add: set_arraySort)
  ultimately show ?case
    by (simp add: sorted_sortedInsert)
qed

subsection \<open>Properties of the search result\<close>

lemma set_searchResult:
  "set (searchResult fl ps data s) = toItem fl ps s ` {l \<in> set data. lotMatches ps l}"
  by (simp add: searchResult_def set_arraySort)

lemma mset_searchResult:
  "mset (searchResult fl ps data s) = image_mset (toItem fl ps s) (filter_mset (lotMatches ps) (mset data))"
  by (simp add: searchResult_def mset_arraySort)

lemma toItem_distance:
  "item_distance (toItem fl ps s l) = None \<longleftrightarrow> p_location ps = None"
  by (simp add: toItem_def Let_def split: option.splits)

lemma searchResult_unlocated:
  assumes "p_location ps = None"
  shows "sorted (map (\<lambda>i. - item_availableSpaces i) (searchResult fl ps data s))"
  unfolding searchResult_def
proof (rule sorted_arraySort)
  fix x y :: "'a item"
  show "(compareLots fl ps x y \<noteq> Positive) = (- item_availableSpaces x \<le> - item_availableSpaces y)"
    using assms by (simp add: compareLots_def intSign_def)
qed

text \<open>
  With a user coordinate the items are compared by the sign that the engine gives to the
  difference of their distances.  Where these signs agree with a linear order of the
  distances in the result, the items come in that order.  A distance that is \<open>NaN\<close> has
  no such order: the sign of its difference with any other distance is neutral both ways.
\<close>

lemma searchResult_located:
  fixes key :: "'d \<Rightarrow> 'k::linorder"
  assumes u: "p_location ps = Some u"
    and cmp: "\<And>x y dx dy.
           x \<in> set (searchResult fl ps data s) \<Longrightarrow> y \<in> set (searchResult fl ps data s) \<Longrightarrow>
           item_distance x = Some dx \<Longrightarrow> item_distance y = Some dy \<Longrightarrow>
           (num_sign fl (num_sub fl dx dy) \<noteq> Positive) = (key dx \<le> key dy)"
  shows "sorted_wrt
           (\<lambda>a b. \<exists>da db. item_distance a = Some da \<and> item_distance b = Some db \<and> key da \<le> key db)
           (searchResult fl ps data s)"
proof -
  let ?items = "map (toItem fl ps s) (filter (lotMatches ps) data)"
  let ?k = "\<lambda>i. key (case item_distance i of None \<Rightarrow> num fl 0 | Some d \<Rightarrow> d)"
  have same: "set (searchResult fl ps data s) = set ?items"
    by (simp add: searchResult_def set_arraySort)
  have def: "\<exists>d. item_distance x = Some d" if "x \<in> set ?items" for x
    using that u toItem_distance [of fl ps s] by fastforce
  have "sorted (map ?k (arraySort (compareLots fl ps) ?items))"
  proof (rule sorted_arraySort)
    fix x y
    assume x: "x \<in> set ?items" and y: "y \<in> set ?items"
    obtain dx dy where d: "item_distance x = Some dx" "item_distance y = Some dy"
      using def [OF x] def [OF y] by blast
    have "(num_sign fl (num_sub fl dx dy) \<noteq> Positive) = (key dx \<le> key dy)"
      using cmp x y d unfolding same by blast
    then show "(compareLots fl ps x y \<noteq> Positive) = (?k x \<le> ?k y)"
      using u d by (simp add: compareLots_def)
  qed
  then have "sorted_wrt (\<lambda>a b. ?k a \<le> ?k b) (searchResult fl ps data s)"
    by (simp add: searchResult_def sorted_map)
  then show ?thesis
  proof (rule sorted_wrt_mono_rel [rotated])
    fix a b
    assume a: "a \<in> set (searchResult fl ps data s)" and b: "b \<in> set (searchResult fl ps data s)"
      and le: "?k a \<le> ?k b"
    obtain da db where d: "item_distance a = Some da" "item_distance b = Some db"
      using def [of a] def [of b] a b unfolding same by blast
    then have "key da \<le> key db"
      using le by simp
    then show "\<exists>da db. item_distance a = Some da \<and> item_distance b = Some db \<and> key da \<le> key db"
      using d by simp
  qed
qed

lemma handler_Success:
  assumes "fst (handler fl up pf req s) = Success items"
  shows "\<exists>data s1 ps.
           req_method req = ''GET'' \<and>
           getAvailableCarParks up (q_city (query req)) s = (Inr data, s1) \<and>
           ParkingSearchSchema_parse (q_city (query req)) (q_parkingType (query req))
             (q_availability (query req)) (queryLocation pf (query req)) = Inr ps \<and>
           loadMockCarParkData up (p_city ps) s1 = (Inr (), snd (handler fl up pf req s)) \<and>
           items = searchResult fl ps data (snd (handler fl up pf req s))"
  using assms
  by (auto simp: handler_def split: if_splits prod.splits sum.splits)

subsection \<open>Running the sample deployment\<close>

lemmas sample_defs = initialState_def sampleToken_def sampleCarPark_def bareCarPark_def sampleLot_def
  sampleUpstream_def brokenUpstream_def refusingUpstream_def tokenlessUpstream_def
  sampleParseFloat_def sampleQuery_def sampleRequest_def

lemmas schema_defs = ParkingSearchSchema_parse_def parse_city_def parse_parkingType_def
  parse_availability_def parse_location_def parse_latitude_def parse_longitude_def
  LocationSchema_issues_def City_values_def ParkingType_of_def ParkingAvailability_of_def
  queryLocation_def

lemmas run_defs = handler_def getAvailableCarParks_def fetchAvailableCarParks_def
  getAccessToken_def renewAccessToken_def fetch_def loadMockCarParkData_def
  mapLot_def mapAvailability_def urlCity_def before_def carParkKey_def carParkEntry_def
  or_else_def

lemmas result_defs = searchResult_def lotMatches_def toItem_def compareLots_def intSign_def
  getMockCarParkData_def

text \<open>
  A search for car parks with many free spaces and no user coordinate: lot \<open>C\<close>, which has
  no metadata, comes before lot \<open>A\<close>, and lot \<open>B\<close> is left out.
\<close>

lemma sample_run:
  "fst (handler exactArith sampleUpstream sampleParseFloat (sampleRequest sampleQuery) (initialState 1000)) =
   Success
     [\<lparr>item_carParkName = \<lparr>zh_tw = ''C'', en = ''C''\<rparr>, item_totalSpaces = 10,
        item_availableSpaces = 9, item_location = \<lparr>latitude = 0, longitude = 0\<rparr>,
        item_address = [], item_telephone = [], item_imageURL = [], item_description = [],
        item_distance = None\<rparr>,
      \<lparr>item_carParkName = \<lparr>zh_tw = ''A'', en = ''A''\<rparr>, item_totalSpaces = 10,
        item_availableSpaces = 6, item_location = \<lparr>latitude = 25, longitude = 121\<rparr>,
        item_address = ''Main Street'', item_telephone = ''119'', item_imageURL = [],
        item_description = [], item_distance = None\<rparr>]"
  by (simp add: sample_defs schema_defs run_defs result_defs Let_def)

text \<open>The same search from the coordinate \<open>(25, 121)\<close> succeeds as well.\<close>

lemma sample_run_located:
  "\<exists>items.
     fst (handler exactArith sampleUpstream sampleParseFloat
            (sampleRequest (sampleQuery\<lparr>q_latitude := Some ''25'', q_longitude := Some ''121''\<rparr>))
            (initialState 1000)) = Success items"
  by (simp add: sample_defs schema_defs run_defs Let_def)

subsection \<open>Filter, join and sort\<close>

text \<open>
  C2. For every validated query, the result holds one item for each lot of the snapshot
  that has an entry of the resolved space type (Car 1, Scooter 2, Heavy 5) with at least
  the resolved number of free spaces (Any 0, Available 1, Many 5, Few 3), and no other
  item.
\<close>

theorem result_is_exactly_the_matching_lots:
  assumes "fst (handler fl up pf req s) = Success items"
  shows "\<exists>ps data.
           ParkingSearchSchema_parse (q_city (query req)) (q_parkingType (query req))
             (q_availability (query req)) (queryLocation pf (query req)) = Inr ps \<and>
           fst (getAvailableCarParks up (q_city (query req)) s) = Inr data \<and>
           mset items =
             image_mset (toItem fl ps (snd (handler fl up pf req s)))
               (filter_mset
                  (\<lambda>l. \<exists>avail \<in> set (Availabilities l).
                          SpaceType avail = spaceTypeMapping (p_parkingType ps) \<and>
                          availableSpaceTypes (p_availability ps) \<le> AvailableSpaces avail)
                  (mset data)) \<and>
           spaceTypeMapping Car = 1 \<and> spaceTypeMapping Scooter = 2 \<and> spaceTypeMapping Heavy = 5 \<and>
           availableSpaceTypes Any = 0 \<and> availableSpaceTypes Available = 1 \<and>
           availableSpaceTypes Many = 5 \<and> availableSpaceTypes Few = 3"
proof -
  obtain data s1 ps where
    d: "getAvailableCarParks up (q_city (query req)) s = (Inr data, s1)" and
    p: "ParkingSearchSchema_parse (q_city (query req)) (q_parkingType (query req))
          (q_availability (query req)) (queryLocation pf (query req)) = Inr ps" and
    i: "items = searchResult fl ps data (snd (handler fl up pf req s))"
    using handler_Success [OF assms] by blast
  have m: "lotMatches ps =
           (\<lambda>l. \<exists>avail \<in> set (Availabilities l).
                   SpaceType avail = spaceTypeMapping (p_parkingType ps) \<and>
                   availableSpaceTypes (p_availability ps) \<le> AvailableSpaces avail)"
    by (rule ext) (simp add: lotMatches_def list_ex_iff)
  have "mset items =
        image_mset (toItem fl ps (snd (handler fl up pf req s))) (filter_mset (lotMatches ps) (mset data))"
    using i by (simp add: mset_searchResult)
  then show ?thesis
    using d p unfolding m by simp
qed

theorem result_is_exactly_the_matching_lots_witness:
  "case fst (handler exactArith sampleUpstream sampleParseFloat (sampleRequest sampleQuery) (initialState 1000)) of
     Success items \<Rightarrow>
       (\<exists>ps data.
          ParkingSearchSchema_parse (q_city (query (sampleRequest sampleQuery)))
            (q_parkingType (query (sampleRequest sampleQuery)))
            (q_availability (query (sampleRequest sampleQuery)))
            (queryLocation sampleParseFloat (query (sampleRequest sampleQuery))) = Inr ps \<and>
          fst (getAvailableCarParks sampleUpstream (q_city (query (sampleRequest sampleQuery)))
                 (initialState 1000)) = Inr data \<and>
          mset items =
            image_mset
              (toItem exactArith ps (snd (handler exactArith sampleUpstream sampleParseFloat (sampleRequest sampleQuery)
                                 (initialState 1000))))
              (filter_mset
                 (\<lambda>l. \<exists>avail \<in> set (Availabilities l).
                         SpaceType avail = spaceTypeMapping (p_parkingType ps) \<and>
                         availableSpaceTypes (p_availability ps) \<le> AvailableSpaces avail)
                 (mset data)) \<and>
          spaceTypeMapping Car = 1 \<and> spaceTypeMapping Scooter = 2 \<and> spaceTypeMapping Heavy = 5 \<and>
          availableSpaceTypes Any = 0 \<and> availableSpaceTypes Available = 1 \<and>
          availableSpaceTypes Many = 5 \<and> availableSpaceTypes Few = 3)
   | _ \<Rightarrow> False"
  unfolding sample_run response.case
  by (rule result_is_exactly_the_matching_lots [OF sample_run])

text \<open>
  C7. A lot that passes the filter and has no entry in the metadata cache under its city
  and identifier is still in the result, with an empty address, telephone and image URL
  and the coordinate \<open>(0, 0)\<close>; when the query carries a user coordinate, its distance is
  the distance from that coordinate to \<open>(0, 0)\<close>.
\<close>

theorem lot_without_metadata_gets_placeholders:
  assumes "fst (handler fl up pf req s) = Success items"
    and "ParkingSearchSchema_parse (q_city (query req)) (q_parkingType (query req))
           (q_availability (query req)) (queryLocation pf (query req)) = Inr ps"
    and "fst (getAvailableCarParks up (q_city (query req)) s) = Inr data"
    and "l \<in> set data"
    and "lotMatches ps l"
    and "getMockCarParkData (snd (handler fl up pf req s)) (p_city ps) (CarParkID l) = None"
  shows "\<exists>it \<in> set items.
           item_carParkName it = \<lparr>zh_tw = Zh_tw (CarParkName l), en = En (CarParkName l)\<rparr> \<and>
           item_address it = [] \<and>
           item_telephone it = [] \<and>
           item_imageURL it = [] \<and>
           item_location it = \<lparr>latitude = 0, longitude = 0\<rparr> \<and>
           item_distance it =
             map_option
               (\<lambda>u. calculateDistance fl (num fl (latitude u)) (num fl (longitude u))
                      (num fl 0) (num fl 0))
               (p_location ps)"
proof -
  let ?s' = "snd (handler fl up pf req s)"
  obtain data' s1 ps' where
    d: "getAvailableCarParks up (q_city (query req)) s = (Inr data', s1)" and
    p: "ParkingSearchSchema_parse (q_city (query req)) (q_parkingType (query req))
          (q_availability (query req)) (queryLocation pf (query req)) = Inr ps'" and
    i: "items = searchResult fl ps' data' ?s'"
    using handler_Success [OF assms(1)] by blast
  have "ps' = ps" using p assms(2) by simp
  moreover have "data' = data" using d assms(3) by simp
  ultimately have "items = searchResult fl ps data ?s'" using i by simp
  then have "toItem fl ps ?s' l \<in> set items"
    using assms(4,5) by (simp add: set_searchResult)
  moreover have
    "item_carParkName (toItem fl ps ?s' l) = \<lparr>zh_tw = Zh_tw (CarParkName l), en = En (CarParkName l)\<rparr> \<and>
     item_address (toItem fl ps ?s' l) = [] \<and>
     item_telephone (toItem fl ps ?s' l) = [] \<and>
     item_imageURL (toItem fl ps ?s' l) = [] \<and>
     item_location (toItem fl ps ?s' l) = \<lparr>latitude = 0, longitude = 0\<rparr> \<and>
     item_distance (toItem fl ps ?s' l) =
       map_option
         (\<lambda>u. calculateDistance fl (num fl (latitude u)) (num fl (longitude u))
                (num fl 0) (num fl 0))
         (p_location ps)"
    using assms(6) by (simp add: toItem_def Let_def split: option.splits)
  ultimately show ?thesis by blast
qed

theorem lot_without_metadata_gets_placeholders_witness:
  "case fst (handler exactArith sampleUpstream sampleParseFloat
               (sampleRequest (sampleQuery\<lparr>q_latitude := Some ''25'', q_longitude := Some ''121''\<rparr>))
               (initialState 1000)) of
     Success items \<Rightarrow>
       (\<exists>it \<in> set items.
          item_carParkName it = \<lparr>zh_tw = ''C'', en = ''C''\<rparr> \<and>
          item_address it = [] \<and>
          item_telephone it = [] \<and>
          item_imageURL it = [] \<and>
          item_location it = \<lparr>latitude = 0, longitude = 0\<rparr> \<and>
          item_distance it =
            Some (calculateDistance exactArith (num exactArith 25) (num exactArith 121)
                    (num exactArith 0) (num exactArith 0)))
   | _ \<Rightarrow> False"
proof -
  let ?q = "sampleQuery\<lparr>q_latitude := Some ''25'', q_longitude := Some ''121''\<rparr>"
  let ?l = "\<lparr>CarParkID = ''C'', CarParkName = \<lparr>Zh_tw = ''C'', En = ''C''\<rparr>,
             Availabilities = [\<lparr>SpaceType = 1, NumberOfSpaces = 10, AvailableSpaces = 9\<rparr>]\<rparr>"
  let ?ps = "\<lparr>p_city = ''Taipei'', p_parkingType = Car, p_availability = Many,
              p_location = Some \<lparr>latitude = 25, longitude = 121\<rparr>\<rparr>"
  let ?data = "[\<lparr>CarParkID = ''B'', CarParkName = \<lparr>Zh_tw = ''B'', En = ''B''\<rparr>,
          Availabilities = [\<lparr>SpaceType = 1, NumberOfSpaces = 10, AvailableSpaces = 2\<rparr>]\<rparr>,
        \<lparr>CarParkID = ''A'', CarParkName = \<lparr>Zh_tw = ''A'', En = ''A''\<rparr>,
          Availabilities = [\<lparr>SpaceType = 1, NumberOfSpaces = 10, AvailableSpaces = 6\<rparr>]\<rparr>, ?l]"
  obtain items where
    h: "fst (handler exactArith sampleUpstream sampleParseFloat (sampleRequest ?q) (initialState 1000)) = Success items"
    using sample_run_located by blast
  have p: "ParkingSearchSchema_parse (q_city (query (sampleRequest ?q)))
             (q_parkingType (query (sampleRequest ?q)))
             (q_availability (query (sampleRequest ?q)))
             (queryLocation sampleParseFloat (query (sampleRequest ?q))) = Inr ?ps"
    by (simp add: sample_defs schema_defs)
  have d: "fst (getAvailableCarParks sampleUpstream (q_city (query (sampleRequest ?q)))
                  (initialState 1000)) = Inr ?data"
    by (simp add: sample_defs run_defs)
  have m: "?l \<in> set ?data"
    by simp
  have f: "lotMatches ?ps ?l"
    by (simp add: lotMatches_def)
  have g: "getMockCarParkData
             (snd (handler exactArith sampleUpstream sampleParseFloat (sampleRequest ?q) (initialState 1000)))
             (p_city ?ps) (CarParkID ?l) = None"
    by (simp add: sample_defs schema_defs run_defs getMockCarParkData_def Let_def)
  show ?thesis
    using lot_without_metadata_gets_placeholders [OF h p d m f g] unfolding h response.case by simp
qed

lemma queryLocation_half:
  "q_latitude q = None \<or> q_longitude q = None \<Longrightarrow> queryLocation pf q = None"
  by (auto simp: queryLocation_def split: option.splits)

text \<open>
  C10. A request that supplies only one of \<open>latitude\<close> and \<open>longitude\<close> is handled as the
  same request with both omitted: the response and the state after it are the same, so no
  validation error is raised for the missing half; no item of a successful response has a
  distance, and the items come in non-increasing order of their available spaces.
\<close>

theorem half_coordinate_is_no_coordinate:
  assumes "(q_latitude q = None) \<noteq> (q_longitude q = None)"
  shows "handler fl up pf \<lparr>req_method = m, query = q\<rparr> s =
           handler fl up pf \<lparr>req_method = m, query = q\<lparr>q_latitude := None, q_longitude := None\<rparr>\<rparr> s \<and>
         (\<forall>items. fst (handler fl up pf \<lparr>req_method = m, query = q\<rparr> s) = Success items \<longrightarrow>
            (\<forall>i \<in> set items. item_distance i = None) \<and>
            sorted_wrt (\<lambda>a b. item_availableSpaces b \<le> item_availableSpaces a) items)"
proof (rule conjI)
  have l: "queryLocation pf q = None"
    using assms by (intro queryLocation_half) auto
  have l': "queryLocation pf (q\<lparr>q_latitude := None, q_longitude := None\<rparr>) = None"
    by (simp add: queryLocation_def)
  show "handler fl up pf \<lparr>req_method = m, query = q\<rparr> s =
        handler fl up pf \<lparr>req_method = m, query = q\<lparr>q_latitude := None, q_longitude := None\<rparr>\<rparr> s"
    by (simp add: handler_def l l' cong: prod.case_cong sum.case_cong)
  show "\<forall>items. fst (handler fl up pf \<lparr>req_method = m, query = q\<rparr> s) = Success items \<longrightarrow>
          (\<forall>i \<in> set items. item_distance i = None) \<and>
          sorted_wrt (\<lambda>a b. item_availableSpaces b \<le> item_availableSpaces a) items"
  proof (intro allI impI)
    fix items
    let ?req = "\<lparr>req_method = m, query = q\<rparr>"
    let ?s' = "snd (handler fl up pf ?req s)"
    assume h: "fst (handler fl up pf ?req s) = Success items"
    obtain data s1 ps where
      p: "ParkingSearchSchema_parse (q_city (query ?req)) (q_parkingType (query ?req))
            (q_availability (query ?req)) (queryLocation pf (query ?req)) = Inr ps" and
      i: "items = searchResult fl ps data ?s'"
      using handler_Success [OF h] by blast
    have u: "p_location ps = None"
      using p l by (auto simp: ParkingSearchSchema_parse_def parse_location_def split: option.splits)
    have "\<forall>i \<in> set items. item_distance i = None"
      using i u by (auto simp: set_searchResult toItem_distance)
    moreover have "sorted_wrt (\<lambda>a b. item_availableSpaces b \<le> item_availableSpaces a) items"
      using searchResult_unlocated [OF u, of fl data ?s'] i by (simp add: sorted_map)
    ultimately show "(\<forall>i \<in> set items. item_distance i = None) \<and>
          sorted_wrt (\<lambda>a b. item_availableSpaces b \<le> item_availableSpaces a) items"
      by simp
  qed
qed

theorem half_coordinate_is_no_coordinate_witness:
  "handler exactArith sampleUpstream sampleParseFloat
     \<lparr>req_method = ''GET'', query = sampleQuery\<lparr>q_latitude := Some ''25''\<rparr>\<rparr> (initialState 1000) =
   handler exactArith sampleUpstream sampleParseFloat
     \<lparr>req_method = ''GET'', query = sampleQuery\<lparr>q_latitude := None, q_longitude := None\<rparr>\<rparr> (initialState 1000) \<and>
   (case fst (handler exactArith sampleUpstream sampleParseFloat
                \<lparr>req_method = ''GET'', query = sampleQuery\<lparr>q_latitude := Some ''25''\<rparr>\<rparr> (initialState 1000)) of
      Success items \<Rightarrow>
        length items = 2 \<and>
        (\<forall>i \<in> set items. item_distance i = None) \<and>
        sorted_wrt (\<lambda>a b. item_availableSpaces b \<le> item_availableSpaces a) items
    | _ \<Rightarrow> False)"
proof -
  let ?q = "sampleQuery\<lparr>q_latitude := Some ''25''\<rparr>"
  have a: "(q_latitude ?q = None) \<noteq> (q_longitude ?q = None)"
    by (simp add: sampleQuery_def)
  have e: "sampleQuery\<lparr>q_latitude := None, q_longitude := None\<rparr> = sampleQuery"
    by (simp add: sampleQuery_def)
  note t = half_coordinate_is_no_coordinate [OF a, where fl = exactArith and up = sampleUpstream
      and pf = sampleParseFloat and m = "''GET''" and s = "initialState 1000"]
  have r: "fst (handler exactArith sampleUpstream sampleParseFloat \<lparr>req_method = ''GET'', query = ?q\<rparr> (initialState 1000)) =
           fst (handler exactArith sampleUpstream sampleParseFloat (sampleRequest sampleQuery) (initialState 1000))"
    using t by (simp add: e sampleRequest_def)
  show ?thesis
    using t unfolding r sample_run response.case by (simp add: e)
qed

subsection \<open>Token manager and availability cache\<close>

lemma getAccessToken_cached:
  assumes "accessToken s = Some t" and "t \<noteq> []" and "before (clock s) (expiredAt s)"
  shows "getAccessToken up s = (Inr t, s)"
  using assms by (simp add: getAccessToken_def)

lemma getAccessToken_renew:
  assumes "\<not> (truthy (accessToken s) \<and> before (clock s) (expiredAt s))"
  shows "getAccessToken up s = renewAccessToken up (clock s) s"
  using assms by (auto simp: getAccessToken_def truthy_def split: option.splits)

lemma renewAccessToken_requests:
  "requests (snd (renewAccessToken up now s)) = requests s @ [TokenRequest]"
  by (auto simp: renewAccessToken_def fetch_def split: prod.splits fetched.splits option.splits)

lemma getAccessToken_frame:
  "carParkCache (snd (getAccessToken up s)) = carParkCache s \<and>
   loadedCities (snd (getAccessToken up s)) = loadedCities s \<and>
   carParkData (snd (getAccessToken up s)) = carParkData s"
  by (auto simp: getAccessToken_def renewAccessToken_def fetch_def Let_def
      split: prod.splits fetched.splits option.splits)

text \<open>
  C5. A cached token is returned unchanged and without a request while the clock is
  before its recorded expiry.  Otherwise one credential exchange is made: a response
  with a token stores the token and the expiry \<open>now + lifetime - 60 s\<close> and returns the
  token, a response without a token throws.  A second call within the validity window
  makes no further exchange.
\<close>

theorem token_reuse_and_renewal:
  "(accessToken s = Some t \<and> t \<noteq> [] \<and> before (clock s) (expiredAt s) \<longrightarrow>
      getAccessToken up s = (Inr t, s)) \<and>
   (\<not> (truthy (accessToken s) \<and> before (clock s) (expiredAt s)) \<longrightarrow>
      requests (snd (getAccessToken up s)) = requests s @ [TokenRequest]) \<and>
   (\<not> (truthy (accessToken s) \<and> before (clock s) (expiredAt s)) \<and>
    token_endpoint up (clock s) = (d, Json data) \<and>
    access_token data = Some t' \<and> t' \<noteq> [] \<and> expires_in data = Some lifetime \<longrightarrow>
      getAccessToken up s =
        (Inr t',
         s\<lparr>clock := clock s + int d,
           requests := requests s @ [TokenRequest],
           expiredAt := Some (clock s + lifetime * 1000 - 60000),
           accessToken := Some t'\<rparr>)) \<and>
   (\<not> (truthy (accessToken s) \<and> before (clock s) (expiredAt s)) \<and>
    token_endpoint up (clock s) = (d, Json data) \<and> \<not> truthy (access_token data) \<longrightarrow>
      fst (getAccessToken up s) = Inl (Error ''Failed to get access token from TDX'')) \<and>
   (getAccessToken up s = (Inr t, s1) \<and> before (clock s1) (expiredAt s1) \<longrightarrow>
      getAccessToken up s1 = (Inr t, s1))"
proof (intro conjI impI)
  assume "accessToken s = Some t \<and> t \<noteq> [] \<and> before (clock s) (expiredAt s)"
  then show "getAccessToken up s = (Inr t, s)"
    by (simp add: getAccessToken_cached)
next
  assume "\<not> (truthy (accessToken s) \<and> before (clock s) (expiredAt s))"
  then show "requests (snd (getAccessToken up s)) = requests s @ [TokenRequest]"
    by (simp add: getAccessToken_renew renewAccessToken_requests)
next
  assume a: "\<not> (truthy (accessToken s) \<and> before (clock s) (expiredAt s)) \<and>
    token_endpoint up (clock s) = (d, Json data) \<and>
    access_token data = Some t' \<and> t' \<noteq> [] \<and> expires_in data = Some lifetime"
  then have "getAccessToken up s = renewAccessToken up (clock s) s"
    by (simp add: getAccessToken_renew)
  then show "getAccessToken up s =
        (Inr t',
         s\<lparr>clock := clock s + int d,
           requests := requests s @ [TokenRequest],
           expiredAt := Some (clock s + lifetime * 1000 - 60000),
           accessToken := Some t'\<rparr>)"
    using a by (simp add: renewAccessToken_def fetch_def)
next
  assume a: "\<not> (truthy (accessToken s) \<and> before (clock s) (expiredAt s)) \<and>
    token_endpoint up (clock s) = (d, Json data) \<and> \<not> truthy (access_token data)"
  then have "getAccessToken up s = renewAccessToken up (clock s) s"
    by (simp add: getAccessToken_renew)
  then show "fst (getAccessToken up s) = Inl (Error ''Failed to get access token from TDX'')"
    using a by (auto simp: renewAccessToken_def fetch_def truthy_def split: option.splits)
next
  assume a: "getAccessToken up s = (Inr t, s1) \<and> before (clock s1) (expiredAt s1)"
  then have "accessToken s1 = Some t \<and> t \<noteq> []"
    by (auto simp: getAccessToken_def renewAccessToken_def fetch_def Let_def
        split: option.splits if_splits prod.splits fetched.splits)
  then show "getAccessToken up s1 = (Inr t, s1)"
    using a by (simp add: getAccessToken_cached)
qed


theorem token_reuse_and_renewal_witness:
  "getAccessToken sampleUpstream (initialState 1000) =
     (Inr ''secret'',
      (initialState 1000)\<lparr>clock := 1120, requests := [TokenRequest],
        expiredAt := Some 3541000, accessToken := Some ''secret''\<rparr>) \<and>
   requests (snd (getAccessToken sampleUpstream (initialState 1000))) = [TokenRequest] \<and>
   getAccessToken sampleUpstream
     ((initialState 1000)\<lparr>clock := 1120, requests := [TokenRequest],
        expiredAt := Some 3541000, accessToken := Some ''secret''\<rparr>) =
     (Inr ''secret'',
      (initialState 1000)\<lparr>clock := 1120, requests := [TokenRequest],
        expiredAt := Some 3541000, accessToken := Some ''secret''\<rparr>) \<and>
   fst (getAccessToken tokenlessUpstream (initialState 1000)) =
     Inl (Error ''Failed to get access token from TDX'')"
proof -
  let ?s1 = "(initialState 1000)\<lparr>clock := 1120, requests := [TokenRequest],
               expiredAt := Some 3541000, accessToken := Some ''secret''\<rparr>"
  have fresh: "\<not> (truthy (accessToken (initialState 1000)) \<and>
                   before (clock (initialState 1000)) (expiredAt (initialState 1000)))"
    by (simp add: initialState_def truthy_def)
  have valid: "accessToken ?s1 = Some ''secret'' \<and> ''secret'' \<noteq> [] \<and> before (clock ?s1) (expiredAt ?s1)"
    by (simp add: initialState_def before_def)
  have renew: "token_endpoint sampleUpstream (clock (initialState 1000)) = (120, Json sampleToken) \<and>
               access_token sampleToken = Some ''secret'' \<and> ''secret'' \<noteq> [] \<and>
               expires_in sampleToken = Some 3600"
    by (simp add: sampleUpstream_def sampleToken_def)
  have lacking: "token_endpoint tokenlessUpstream (clock (initialState 1000)) =
                   (120, Json \<lparr>access_token = None, expires_in = None\<rparr>) \<and>
                 \<not> truthy (access_token \<lparr>access_token = None, expires_in = None\<rparr>)"
    by (simp add: tokenlessUpstream_def sampleUpstream_def truthy_def)
  note a = token_reuse_and_renewal [where s = "initialState 1000" and up = sampleUpstream
      and d = 120 and data = sampleToken and t' = "''secret''" and lifetime = 3600
      and t = "''secret''" and ?s1.0 = ?s1]
  note b = token_reuse_and_renewal [where s = ?s1 and up = sampleUpstream and t = "''secret''"
      and d = 120 and data = sampleToken and t' = "''secret''" and lifetime = 3600 and ?s1.0 = ?s1]
  note c = token_reuse_and_renewal [where s = "initialState 1000" and up = tokenlessUpstream
      and d = 120 and data = "\<lparr>access_token = None, expires_in = None\<rparr>"
      and t = "''secret''" and t' = "''secret''" and lifetime = 3600 and ?s1.0 = ?s1]
  have 1: "getAccessToken sampleUpstream (initialState 1000) = (Inr ''secret'', ?s1)"
    using a [THEN conjunct2, THEN conjunct2, THEN conjunct1, rule_format, OF conjI [OF fresh renew]]
    by (simp add: initialState_def)
  have 2: "requests (snd (getAccessToken sampleUpstream (initialState 1000))) = [TokenRequest]"
    using a [THEN conjunct2, THEN conjunct1, rule_format, OF fresh]
    by (simp add: initialState_def)
  have 3: "getAccessToken sampleUpstream ?s1 = (Inr ''secret'', ?s1)"
    by (rule b [THEN conjunct1, rule_format, OF valid])
  have 4: "fst (getAccessToken tokenlessUpstream (initialState 1000)) =
             Inl (Error ''Failed to get access token from TDX'')"
    by (rule c [THEN conjunct2, THEN conjunct2, THEN conjunct2, THEN conjunct1, rule_format,
          OF conjI [OF fresh lacking]])
  show ?thesis
    by (intro conjI) (rule 1, rule 2, rule 3, rule 4)
qed

lemma getAvailableCarParks_hit:
  assumes "carParkCache s city = Some cache" and "clock s < cache_expiredAt cache"
  shows "getAvailableCarParks up city s = (Inr (cache_values cache), s)"
  using assms by (simp add: getAvailableCarParks_def)

lemma getAvailableCarParks_miss:
  assumes "\<forall>cache. carParkCache s city = Some cache \<longrightarrow> cache_expiredAt cache \<le> clock s"
  shows "getAvailableCarParks up city s = fetchAvailableCarParks up city s"
  using assms by (auto simp: getAvailableCarParks_def split: option.splits)

lemma fetchAvailableCarParks_fresh:
  assumes "fetchAvailableCarParks up city s = (Inr vs, s')"
  shows "\<exists>cache. carParkCache s' city = Some cache \<and> cache_values cache = vs \<and>
                 clock s' < cache_expiredAt cache"
  using assms
  by (auto simp: fetchAvailableCarParks_def fetch_def
      split: prod.splits sum.splits fetched.splits option.splits)

text \<open>
  C4. While a city's cached snapshot has not reached its expiry, its lot list is returned
  as it is, with no request and no change of state.  Otherwise a fresh feed is fetched,
  the city's entry is replaced by a snapshot that expires 60 seconds after the clock at
  the time it is stored, and the new lot list is returned.  Whatever list is returned
  belongs to a snapshot that has not expired.
\<close>

theorem availability_snapshot_is_fresh:
  "(carParkCache s city = Some cache \<and> clock s < cache_expiredAt cache \<longrightarrow>
      getAvailableCarParks up city s = (Inr (cache_values cache), s)) \<and>
   ((\<forall>c. carParkCache s city = Some c \<longrightarrow> cache_expiredAt c \<le> clock s) \<and>
    getAccessToken up s = (Inr token, s1) \<and>
    availability_endpoint up (urlCity city) token (clock s1) = (d, Json (Some feed)) \<and>
    mapLots feed = Some lots \<longrightarrow>
      getAvailableCarParks up city s =
        (Inr lots,
         s1\<lparr>clock := clock s1 + int d,
            requests := requests s1 @ [AvailabilityRequest (urlCity city) token],
            carParkCache := (carParkCache s1)
              (city \<mapsto> \<lparr>cache_expiredAt = clock s1 + int d + 60000, cache_values = lots\<rparr>)\<rparr>)) \<and>
   (getAvailableCarParks up city s = (Inr vs, s') \<longrightarrow>
      (\<exists>c. carParkCache s' city = Some c \<and> cache_values c = vs \<and> clock s' < cache_expiredAt c))"
proof (intro conjI impI)
  assume "carParkCache s city = Some cache \<and> clock s < cache_expiredAt cache"
  then show "getAvailableCarParks up city s = (Inr (cache_values cache), s)"
    by (simp add: getAvailableCarParks_hit)
next
  assume a: "(\<forall>c. carParkCache s city = Some c \<longrightarrow> cache_expiredAt c \<le> clock s) \<and>
    getAccessToken up s = (Inr token, s1) \<and>
    availability_endpoint up (urlCity city) token (clock s1) = (d, Json (Some feed)) \<and>
    mapLots feed = Some lots"
  then have "getAvailableCarParks up city s = fetchAvailableCarParks up city s"
    by (simp add: getAvailableCarParks_miss)
  then show "getAvailableCarParks up city s =
        (Inr lots,
         s1\<lparr>clock := clock s1 + int d,
            requests := requests s1 @ [AvailabilityRequest (urlCity city) token],
            carParkCache := (carParkCache s1)
              (city \<mapsto> \<lparr>cache_expiredAt = clock s1 + int d + 60000, cache_values = lots\<rparr>)\<rparr>)"
    using a by (simp add: fetchAvailableCarParks_def fetch_def)
next
  assume a: "getAvailableCarParks up city s = (Inr vs, s')"
  show "\<exists>c. carParkCache s' city = Some c \<and> cache_values c = vs \<and> clock s' < cache_expiredAt c"
  proof (cases "\<exists>c. carParkCache s city = Some c \<and> clock s < cache_expiredAt c")
    case True
    then obtain c where c: "carParkCache s city = Some c" "clock s < cache_expiredAt c"
      by blast
    then have "vs = cache_values c \<and> s' = s"
      using a by (simp add: getAvailableCarParks_hit)
    then show ?thesis using c by simp
  next
    case False
    then have "getAvailableCarParks up city s = fetchAvailableCarParks up city s"
      by (intro getAvailableCarParks_miss) (auto simp: not_less)
    then show ?thesis
      using a fetchAvailableCarParks_fresh by simp
  qed
qed

theorem availability_snapshot_is_fresh_witness:
  "getAvailableCarParks sampleUpstream (Some ''Taipei'') (initialState 1000) =
     (Inr [\<lparr>CarParkID = ''B'', CarParkName = \<lparr>Zh_tw = ''B'', En = ''B''\<rparr>,
             Availabilities = [\<lparr>SpaceType = 1, NumberOfSpaces = 10, AvailableSpaces = 2\<rparr>]\<rparr>,
           \<lparr>CarParkID = ''A'', CarParkName = \<lparr>Zh_tw = ''A'', En = ''A''\<rparr>,
             Availabilities = [\<lparr>SpaceType = 1, NumberOfSpaces = 10, AvailableSpaces = 6\<rparr>]\<rparr>,
           \<lparr>CarParkID = ''C'', CarParkName = \<lparr>Zh_tw = ''C'', En = ''C''\<rparr>,
             Availabilities = [\<lparr>SpaceType = 1, NumberOfSpaces = 10, AvailableSpaces = 9\<rparr>]\<rparr>],
      snd (getAvailableCarParks sampleUpstream (Some ''Taipei'') (initialState 1000))) \<and>
   carParkCache (snd (getAvailableCarParks sampleUpstream (Some ''Taipei'') (initialState 1000)))
     (Some ''Taipei'') =
     Some \<lparr>cache_expiredAt = 61270,
       cache_values =
          [\<lparr>CarParkID = ''B'', CarParkName = \<lparr>Zh_tw = ''B'', En = ''B''\<rparr>,
             Availabilities = [\<lparr>SpaceType = 1, NumberOfSpaces = 10, AvailableSpaces = 2\<rparr>]\<rparr>,
           \<lparr>CarParkID = ''A'', CarParkName = \<lparr>Zh_tw = ''A'', En = ''A''\<rparr>,
             Availabilities = [\<lparr>SpaceType = 1, NumberOfSpaces = 10, AvailableSpaces = 6\<rparr>]\<rparr>,
           \<lparr>CarParkID = ''C'', CarParkName = \<lparr>Zh_tw = ''C'', En = ''C''\<rparr>,
             Availabilities = [\<lparr>SpaceType = 1, NumberOfSpaces = 10, AvailableSpaces = 9\<rparr>]\<rparr>]\<rparr> \<and>
   getAvailableCarParks sampleUpstream (Some ''Taipei'')
     (snd (getAvailableCarParks sampleUpstream (Some ''Taipei'') (initialState 1000))) =
   getAvailableCarParks sampleUpstream (Some ''Taipei'') (initialState 1000) \<and>
   (\<exists>c. carParkCache (snd (getAvailableCarParks sampleUpstream (Some ''Taipei'') (initialState 1000)))
          (Some ''Taipei'') = Some c \<and>
        clock (snd (getAvailableCarParks sampleUpstream (Some ''Taipei'') (initialState 1000))) <
          cache_expiredAt c)"
proof -
  let ?s = "initialState 1000"
  let ?s1 = "?s\<lparr>clock := 1120, requests := [TokenRequest],
               expiredAt := Some 3541000, accessToken := Some ''secret''\<rparr>"
  let ?lots = "[\<lparr>CarParkID = ''B'', CarParkName = \<lparr>Zh_tw = ''B'', En = ''B''\<rparr>,
             Availabilities = [\<lparr>SpaceType = 1, NumberOfSpaces = 10, AvailableSpaces = 2\<rparr>]\<rparr>,
           \<lparr>CarParkID = ''A'', CarParkName = \<lparr>Zh_tw = ''A'', En = ''A''\<rparr>,
             Availabilities = [\<lparr>SpaceType = 1, NumberOfSpaces = 10, AvailableSpaces = 6\<rparr>]\<rparr>,
           \<lparr>CarParkID = ''C'', CarParkName = \<lparr>Zh_tw = ''C'', En = ''C''\<rparr>,
             Availabilities = [\<lparr>SpaceType = 1, NumberOfSpaces = 10, AvailableSpaces = 9\<rparr>]\<rparr>]"
  let ?cache = "\<lparr>cache_expiredAt = 61270, cache_values = ?lots\<rparr>"
  let ?feed = "[sampleLot ''B'' 2, sampleLot ''A'' 6, sampleLot ''C'' 9]"
  let ?s2 = "?s1\<lparr>clock := clock ?s1 + int 150,
            requests := requests ?s1 @ [AvailabilityRequest (urlCity (Some ''Taipei'')) ''secret''],
            carParkCache := (carParkCache ?s1)
              (Some ''Taipei'' \<mapsto> \<lparr>cache_expiredAt = clock ?s1 + int 150 + 60000, cache_values = ?lots\<rparr>)\<rparr>"
  note t = availability_snapshot_is_fresh [where up = sampleUpstream and city = "Some ''Taipei''"
      and token = "''secret''" and d = 150 and feed = ?feed and lots = ?lots and ?s1.0 = ?s1
      and vs = ?lots]
  have miss: "(\<forall>c. carParkCache ?s (Some ''Taipei'') = Some c \<longrightarrow> cache_expiredAt c \<le> clock ?s) \<and>
    getAccessToken sampleUpstream ?s = (Inr ''secret'', ?s1) \<and>
    availability_endpoint sampleUpstream (urlCity (Some ''Taipei'')) ''secret'' (clock ?s1) =
      (150, Json (Some ?feed)) \<and>
    mapLots ?feed = Some ?lots"
    by (simp add: sample_defs run_defs)
  have 1: "getAvailableCarParks sampleUpstream (Some ''Taipei'') ?s = (Inr ?lots, ?s2)"
    by (rule t [where s = ?s and cache = ?cache and s' = ?s2, THEN conjunct2, THEN conjunct1,
          rule_format, OF miss])
  have hit: "carParkCache ?s2 (Some ''Taipei'') = Some ?cache \<and> clock ?s2 < cache_expiredAt ?cache"
    by (simp add: initialState_def)
  have 2: "getAvailableCarParks sampleUpstream (Some ''Taipei'') ?s2 = (Inr (cache_values ?cache), ?s2)"
    by (rule t [where s = ?s2 and cache = ?cache and s' = ?s2, THEN conjunct1, rule_format, OF hit])
  have 3: "\<exists>c. carParkCache ?s2 (Some ''Taipei'') = Some c \<and> cache_values c = ?lots \<and>
               clock ?s2 < cache_expiredAt c"
    by (rule t [where s = ?s and cache = ?cache and s' = ?s2, THEN conjunct2, THEN conjunct2,
          rule_format, OF 1])
  then have 4: "\<exists>c. carParkCache ?s2 (Some ''Taipei'') = Some c \<and> clock ?s2 < cache_expiredAt c"
    by blast
  show ?thesis
    unfolding 1 snd_conv using hit 2 4 by (intro conjI) simp_all
qed

subsection \<open>Metadata loader\<close>

lemma populate_entry:
  assumes "carParkData (snd (populate city cps s)) k = Some e"
    and "carParkData s k \<noteq> Some e"
  shows "\<exists>cp \<in> set cps. \<exists>n pos.
           cp_CarParkName cp = Some n \<and> cp_CarParkPosition cp = Some pos \<and>
           k = carParkKey city (cp_CarParkID cp) \<and> e = carParkEntry cp n pos"
  using assms
proof (induction cps arbitrary: s)
  case Nil
  then show ?case by simp
next
  case (Cons cp rest)
  show ?case
  proof (cases "cp_CarParkName cp")
    case None
    then show ?thesis using Cons.prems by simp
  next
    case (Some n)
    note n = this
    show ?thesis
    proof (cases "cp_CarParkPosition cp")
      case None
      then show ?thesis using Cons.prems n by simp
    next
      case (Some pos)
      let ?s2 = "s\<lparr>carParkData := (carParkData s)(carParkKey city (cp_CarParkID cp) \<mapsto> carParkEntry cp n pos)\<rparr>"
      have run: "carParkData (snd (populate city rest ?s2)) k = Some e"
        using Cons.prems(1) n Some by simp
      show ?thesis
      proof (cases "carParkData ?s2 k = Some e")
        case True
        then have "k = carParkKey city (cp_CarParkID cp) \<and> e = carParkEntry cp n pos"
          using Cons.prems(2) by (auto split: if_splits)
        then show ?thesis using n Some by auto
      next
        case False
        then show ?thesis using Cons.IH [OF run] by auto
      qed
    qed
  qed
qed

lemma loadMockCarParkData_entry:
  assumes "carParkData (snd (loadMockCarParkData up city s)) k = Some e"
    and "carParkData s k \<noteq> Some e"
  shows "\<exists>token t d cps. carpark_endpoint up city token t = (d, Json (Some cps)) \<and>
           (\<exists>cp \<in> set cps. \<exists>n pos.
              cp_CarParkName cp = Some n \<and> cp_CarParkPosition cp = Some pos \<and>
              k = carParkKey city (cp_CarParkID cp) \<and> e = carParkEntry cp n pos)"
proof (cases "city \<in> loadedCities s")
  case True
  then show ?thesis using assms by (simp add: loadMockCarParkData_def)
next
  case False
  obtain r s1 where t: "getAccessToken up s = (r, s1)"
    by (cases "getAccessToken up s")
  have f1: "carParkData s1 = carParkData s"
    using getAccessToken_frame [of up s] t by simp
  show ?thesis
  proof (cases r)
    case (Inl err)
    then show ?thesis
      using assms False t f1 by (simp add: loadMockCarParkData_def)
  next
    case (Inr token)
    obtain d body where ep: "carpark_endpoint up city token (clock s1) = (d, body)"
      by (cases "carpark_endpoint up city token (clock s1)")
    let ?s2 = "s1\<lparr>clock := clock s1 + int d, requests := requests s1 @ [CarParkRequest city token]\<rparr>"
    let ?s3 = "?s2\<lparr>loadedCities := insert city (loadedCities ?s2)\<rparr>"
    show ?thesis
    proof (cases body)
      case Rejected
      then show ?thesis
        using assms False t f1 Inr ep by (simp add: loadMockCarParkData_def fetch_def)
    next
      case (Json data)
      show ?thesis
      proof (cases data)
        case None
        then show ?thesis
          using assms False t f1 Inr ep Json
          by (simp add: loadMockCarParkData_def fetch_def Let_def)
      next
        case (Some cps)
        have run: "loadMockCarParkData up city s = populate city cps ?s3"
          using False t Inr ep Json Some by (simp add: loadMockCarParkData_def fetch_def Let_def)
        have "carParkData (snd (populate city cps ?s3)) k = Some e"
          using assms(1) run by simp
        moreover have "carParkData ?s3 k \<noteq> Some e"
          using assms(2) f1 by simp
        ultimately have "\<exists>cp \<in> set cps. \<exists>n pos.
              cp_CarParkName cp = Some n \<and> cp_CarParkPosition cp = Some pos \<and>
              k = carParkKey city (cp_CarParkID cp) \<and> e = carParkEntry cp n pos"
          by (rule populate_entry)
        then show ?thesis
          using ep Json Some by blast
      qed
    qed
  qed
qed

lemma carParkEntry_defaults:
  "(cp_Telephone cp = None \<and> cp_EmergencyPhone cp = None \<longrightarrow> telephone (carParkEntry cp n pos) = []) \<and>
   (cp_Description cp = None \<longrightarrow> description (carParkEntry cp n pos) = []) \<and>
   (cp_Address cp = None \<longrightarrow> address (carParkEntry cp n pos) = []) \<and>
   (cp_ImageURLs cp = None \<longrightarrow> imageURL (carParkEntry cp n pos) = None)"
  by (simp add: carParkEntry_def or_else_def)

text \<open>
  C8, as the code has it.  Every entry that the loader stores comes from a record of the
  city's metadata feed.  A description or an address missing from that record is stored as
  the empty string, and so is the telephone when both \<open>Telephone\<close> and \<open>EmergencyPhone\<close>
  are missing; a missing image list is stored as an undefined \<open>imageURL\<close>.
\<close>

theorem stored_defaults:
  assumes "carParkData (snd (loadMockCarParkData up city s)) k = Some e"
    and "carParkData s k \<noteq> Some e"
  shows "\<exists>token t d cps. carpark_endpoint up city token t = (d, Json (Some cps)) \<and>
           (\<exists>cp \<in> set cps.
              k = carParkKey city (cp_CarParkID cp) \<and>
              (cp_Telephone cp = None \<and> cp_EmergencyPhone cp = None \<longrightarrow> telephone e = []) \<and>
              (cp_Description cp = None \<longrightarrow> description e = []) \<and>
              (cp_Address cp = None \<longrightarrow> address e = []) \<and>
              (cp_ImageURLs cp = None \<longrightarrow> imageURL e = None))"
proof -
  obtain token t d cps cp n pos where
    ep: "carpark_endpoint up city token t = (d, Json (Some cps))" and
    cp: "cp \<in> set cps" "k = carParkKey city (cp_CarParkID cp)" "e = carParkEntry cp n pos"
    using loadMockCarParkData_entry [OF assms] by blast
  have "k = carParkKey city (cp_CarParkID cp) \<and>
        (cp_Telephone cp = None \<and> cp_EmergencyPhone cp = None \<longrightarrow> telephone e = []) \<and>
        (cp_Description cp = None \<longrightarrow> description e = []) \<and>
        (cp_Address cp = None \<longrightarrow> address e = []) \<and>
        (cp_ImageURLs cp = None \<longrightarrow> imageURL e = None)"
    using cp(2,3) carParkEntry_defaults [of cp n pos] by simp
  then have "\<exists>cp \<in> set cps.
        k = carParkKey city (cp_CarParkID cp) \<and>
        (cp_Telephone cp = None \<and> cp_EmergencyPhone cp = None \<longrightarrow> telephone e = []) \<and>
        (cp_Description cp = None \<longrightarrow> description e = []) \<and>
        (cp_Address cp = None \<longrightarrow> address e = []) \<and>
        (cp_ImageURLs cp = None \<longrightarrow> imageURL e = None)"
    using cp(1) by (rule bexI)
  with ep show ?thesis
    by (intro exI conjI)
qed

theorem stored_defaults_witness:
  "\<exists>e. carParkData (snd (loadMockCarParkData sampleUpstream ''Taipei'' (initialState 1000)))
          ''Taipei-B'' = Some e \<and>
        telephone e = [] \<and> description e = [] \<and> address e = [] \<and> imageURL e = None"
proof -
  let ?s' = "snd (loadMockCarParkData sampleUpstream ''Taipei'' (initialState 1000))"
  obtain e where st: "carParkData ?s' ''Taipei-B'' = Some e"
    by (simp add: sample_defs run_defs Let_def)
  have ne: "carParkData (initialState 1000) ''Taipei-B'' \<noteq> Some e"
    by (simp add: initialState_def)
  from stored_defaults [OF st ne] obtain token t d cps cp where
    ep: "carpark_endpoint sampleUpstream ''Taipei'' token t = (d, Json (Some cps))" and
    cp: "cp \<in> set cps" and
    k: "''Taipei-B'' = carParkKey ''Taipei'' (cp_CarParkID cp)" and
    d1: "cp_Telephone cp = None \<and> cp_EmergencyPhone cp = None \<longrightarrow> telephone e = []" and
    d2: "cp_Description cp = None \<longrightarrow> description e = []" and
    d3: "cp_Address cp = None \<longrightarrow> address e = []" and
    d4: "cp_ImageURLs cp = None \<longrightarrow> imageURL e = None"
    by (elim exE conjE bexE) (rule that)
  have "cps = [sampleCarPark ''A'' 25, bareCarPark ''B'' 24]"
    using ep by (simp add: sampleUpstream_def)
  then have "cp = sampleCarPark ''A'' 25 \<or> cp = bareCarPark ''B'' 24"
    using cp by simp
  moreover have "cp \<noteq> sampleCarPark ''A'' 25"
    using k by (auto simp: carParkKey_def sampleCarPark_def)
  ultimately have "cp = bareCarPark ''B'' 24"
    by simp
  then have "telephone e = [] \<and> description e = [] \<and> address e = [] \<and> imageURL e = None"
    using d1 d2 d3 d4 by (simp add: bareCarPark_def)
  then show ?thesis
    using st by simp
qed

text \<open>
  C8 as stated fails: the metadata record of lot \<open>B\<close> has no image list, and the entry
  stored for it has an undefined \<open>imageURL\<close>, not the empty string.
\<close>

theorem missing_image_is_stored_undefined:
  "cp_ImageURLs (bareCarPark ''B'' 24) = None \<and>
   map_option imageURL
     (carParkData (snd (loadMockCarParkData sampleUpstream ''Taipei'' (initialState 1000)))
        ''Taipei-B'') = Some None \<and>
   map_option imageURL
     (carParkData (snd (loadMockCarParkData sampleUpstream ''Taipei'' (initialState 1000)))
        ''Taipei-B'') \<noteq> Some (Some [])"
  by (simp add: sample_defs run_defs Let_def)

subsection \<open>Where the code departs from its specification\<close>

text \<open>
  C1 fails on the code: the handler calls \<open>getAvailableCarParks\<close> with the raw
  \<open>req.query.city\<close> before it parses the query.  A request with the unsupported parking
  type \<open>Bus\<close>, and one with the unsupported city \<open>Mars\<close>, are both rejected with a
  validation error, but only after a credential exchange and an availability fetch have
  been made and the token and the snapshot have been stored.
\<close>

theorem invalid_query_is_fetched_before_it_is_rejected:
  "fst (handler fl sampleUpstream sampleParseFloat
          (sampleRequest (sampleQuery\<lparr>q_parkingType := Some ''Bus''\<rparr>)) (initialState 1000)) =
     Failure (ZodError [''parkingType'']) \<and>
   requests (snd (handler fl sampleUpstream sampleParseFloat
          (sampleRequest (sampleQuery\<lparr>q_parkingType := Some ''Bus''\<rparr>)) (initialState 1000))) =
     [TokenRequest, AvailabilityRequest ''Taipei'' ''secret''] \<and>
   carParkCache (initialState 1000) (Some ''Taipei'') = None \<and>
   map_option cache_expiredAt
     (carParkCache (snd (handler fl sampleUpstream sampleParseFloat
          (sampleRequest (sampleQuery\<lparr>q_parkingType := Some ''Bus''\<rparr>)) (initialState 1000)))
        (Some ''Taipei'')) = Some 61270 \<and>
   accessToken (snd (handler fl sampleUpstream sampleParseFloat
          (sampleRequest (sampleQuery\<lparr>q_parkingType := Some ''Bus''\<rparr>)) (initialState 1000))) =
     Some ''secret'' \<and>
   fst (handler fl sampleUpstream sampleParseFloat
          (sampleRequest (sampleQuery\<lparr>q_city := Some ''Mars''\<rparr>)) (initialState 1000)) =
     Failure (ZodError [''city'']) \<and>
   requests (snd (handler fl sampleUpstream sampleParseFloat
          (sampleRequest (sampleQuery\<lparr>q_city := Some ''Mars''\<rparr>)) (initialState 1000))) =
     [TokenRequest, AvailabilityRequest ''Mars'' ''secret''] \<and>
   map_option cache_expiredAt
     (carParkCache (snd (handler fl sampleUpstream sampleParseFloat
          (sampleRequest (sampleQuery\<lparr>q_city := Some ''Mars''\<rparr>)) (initialState 1000)))
        (Some ''Mars'')) = Some 61270"
  by (simp add: sample_defs schema_defs run_defs Let_def)

text \<open>
  C6 fails on the code: \<open>loadedCities.add\<close> comes before the loop that fills the cache.
  When the second record of the feed has no name, the loop throws after the first record
  has been stored; when the body has no \<open>CarParks\<close> array, it throws before any record
  is stored.  Either way the city is in the loaded set, and the next call returns at once,
  without a request, even against an upstream that would now answer well.
\<close>

theorem city_is_marked_loaded_before_population:
  "fst (loadMockCarParkData brokenUpstream ''Taipei'' (initialState 1000)) = Inl TypeError \<and>
   ''Taipei'' \<in> loadedCities (snd (loadMockCarParkData brokenUpstream ''Taipei'' (initialState 1000))) \<and>
   carParkData (snd (loadMockCarParkData brokenUpstream ''Taipei'' (initialState 1000))) ''Taipei-A'' \<noteq> None \<and>
   carParkData (snd (loadMockCarParkData brokenUpstream ''Taipei'' (initialState 1000))) ''Taipei-B'' = None \<and>
   loadMockCarParkData sampleUpstream ''Taipei''
     (snd (loadMockCarParkData brokenUpstream ''Taipei'' (initialState 1000))) =
     (Inr (), snd (loadMockCarParkData brokenUpstream ''Taipei'' (initialState 1000))) \<and>
   fst (loadMockCarParkData refusingUpstream ''Taipei'' (initialState 1000)) = Inl TypeError \<and>
   ''Taipei'' \<in> loadedCities (snd (loadMockCarParkData refusingUpstream ''Taipei'' (initialState 1000))) \<and>
   carParkData (snd (loadMockCarParkData refusingUpstream ''Taipei'' (initialState 1000))) ''Taipei-A'' = None \<and>
   loadMockCarParkData sampleUpstream ''Taipei''
     (snd (loadMockCarParkData refusingUpstream ''Taipei'' (initialState 1000))) =
     (Inr (), snd (loadMockCarParkData refusingUpstream ''Taipei'' (initialState 1000)))"
  by (simp add: sample_defs run_defs Let_def)

text \<open>
  A load that fails in the credential exchange or in the fetch, that is with any error
  but the \<open>TypeError\<close> of the population, does leave the city out of the loaded set.
\<close>

lemma failed_fetch_leaves_city_unloaded:
  assumes "city \<notin> loadedCities s"
    and "fst (loadMockCarParkData up city s) = Inl e"
    and "e \<noteq> TypeError"
  shows "city \<notin> loadedCities (snd (loadMockCarParkData up city s))"
proof -
  have pop: "\<And>cps s0. fst (populate city cps s0) = Inl e \<Longrightarrow> False"
  proof -
    fix cps s0
    show "fst (populate city cps s0) = Inl e \<Longrightarrow> False"
      using assms(3)
      by (induction cps arbitrary: s0) (auto split: option.splits)
  qed
  obtain r s1 where t: "getAccessToken up s = (r, s1)"
    by (cases "getAccessToken up s")
  have f1: "loadedCities s1 = loadedCities s"
    using getAccessToken_frame [of up s] t by simp
  show ?thesis
    using assms t f1 pop
    by (auto simp: loadMockCarParkData_def fetch_def Let_def
        split: sum.splits prod.splits fetched.splits option.splits)
qed

end
